theory Spec2Isabelle
  imports
    Complex_Main
    "HOL-Library.Multiset"
    "HOL-Library.Sublist"
    "HOL-Library.Char_ord"
    "HOL-Library.List_Lexorder"
    "HOL-Library.Product_Lexorder"
begin

section \<open>The order table of \<^verbatim>\<open>dashboard.py\<close>\<close>

text \<open>
  \<^verbatim>\<open>dashboard.py\<close> reads one table (\<^verbatim>\<open>all_df.csv\<close>), narrows it with two sidebar
  filters and derives every figure of the page from the narrowed table by pandas method
  chains. The table is a list of rows in file order. A cell that pandas reads as missing
  (\<^verbatim>\<open>NaN\<close>, \<^verbatim>\<open>NaT\<close>) is \<open>None\<close>. A \<^verbatim>\<open>float64\<close> cell is a real number: rounding is
  not modelled, and the not-a-number value of a computed statistic is \<open>None\<close> as well.

  A calendar date is the triple (year, month, day); Python compares \<^verbatim>\<open>datetime.date\<close>
  values in exactly this lexicographic order. A monthly period is the pair (year, month).
\<close>

type_synonym date = "nat \<times> nat \<times> nat"

type_synonym period = "nat \<times> nat"

record timestamp =
  ts_date :: date
  ts_nanos :: nat  \<comment> \<open>time of day\<close>

record row =
  order_id :: "string option"
  customer_state :: "string option"
  order_purchase_timestamp :: "timestamp option"
  delivery_delay :: "real option"
  delivery_status :: "string option"
  product_category_name :: "string option"
  product_weight_g :: "real option"
  product_length_cm :: "real option"
  product_height_cm :: "real option"
  product_width_cm :: "real option"
  volume :: "real option"
  weight_category :: "string option"
  order_weekday :: "string option"

type_synonym table = "row list"

datatype error = IndexError

section \<open>Filter (lines 51--55)\<close>

text \<open>
  \<^verbatim>\<open>Series.dt.date\<close>: the calendar date of each timestamp, time of day dropped;
  \<^verbatim>\<open>NaT\<close> stays missing.
\<close>

definition dt_date :: "timestamp option \<Rightarrow> date option" where
  "dt_date t = map_option ts_date t"

text \<open>
  Comparing the object column of dates with one date: a missing cell compares
  \<^verbatim>\<open>False\<close> under both \<^verbatim>\<open>>=\<close> and \<^verbatim>\<open><=\<close>.
\<close>

definition date_ge :: "date option \<Rightarrow> date \<Rightarrow> bool" where
  "date_ge c d = (case c of None \<Rightarrow> False | Some x \<Rightarrow> d \<le> x)"

definition date_le :: "date option \<Rightarrow> date \<Rightarrow> bool" where
  "date_le c d = (case c of None \<Rightarrow> False | Some x \<Rightarrow> x \<le> d)"

text \<open>\<^verbatim>\<open>Series.isin(values)\<close>: membership of the cell in the selected values.\<close>

definition isin :: "string option \<Rightarrow> string option list \<Rightarrow> bool" where
  "isin c values = (c \<in> set values)"

text \<open>The boolean mask of lines 52--54, for the two bounds already read.\<close>

definition filter_mask :: "string option list \<Rightarrow> date \<Rightarrow> date \<Rightarrow> row \<Rightarrow> bool" where
  "filter_mask selected_states d0 d1 r =
     (isin (customer_state r) selected_states \<and>
      date_ge (dt_date (order_purchase_timestamp r)) d0 \<and>
      date_le (dt_date (order_purchase_timestamp r)) d1)"

text \<open>
  \<^verbatim>\<open>st.sidebar.date_input\<close> with a pair as its value returns a tuple of at most two
  dates; \<^verbatim>\<open>date_range[0]\<close> and \<^verbatim>\<open>date_range[1]\<close> raise \<^verbatim>\<open>IndexError\<close> on a shorter
  one. Indexing the frame with the mask keeps the rows whose mask is true, in order.
\<close>

definition filtered_df :: "table \<Rightarrow> string option list \<Rightarrow> date list \<Rightarrow> error + table" where
  "filtered_df df selected_states date_range =
     (case date_range of
        d0 # d1 # _ \<Rightarrow> Inr (filter (filter_mask selected_states d0 d1) df)
      | _ \<Rightarrow> Inl IndexError)"

section \<open>Series reductions\<close>

text \<open>The cells of a column that are not missing, in order (\<^verbatim>\<open>Series.dropna\<close>).\<close>

fun dropna :: "'a option list \<Rightarrow> 'a list" where
  "dropna [] = []"
| "dropna (None # s) = dropna s"
| "dropna (Some v # s) = v # dropna s"

text \<open>
  \<^verbatim>\<open>Series.mean()\<close> of a float column (\<^verbatim>\<open>skipna=True\<close>): the arithmetic mean of the
  cells that are not missing, and not-a-number when there is none. No exception is
  raised on an empty or all-missing column.
\<close>

definition mean :: "real option list \<Rightarrow> real option" where
  "mean s = (let vs = dropna s in
     if vs = [] then None else Some (sum_list vs / real (length vs)))"

text \<open>
  \<^verbatim>\<open>Series.mean()\<close> of a boolean column: the number of \<^verbatim>\<open>True\<close> cells over the number
  of cells, and not-a-number for the empty column.
\<close>

definition mean_bool :: "bool list \<Rightarrow> real option" where
  "mean_bool s =
     (if s = [] then None else Some (real (length (filter (\<lambda>b. b) s)) / real (length s)))"

text \<open>\<^verbatim>\<open>Series.count()\<close> and the \<^verbatim>\<open>'count'\<close> aggregation: the number of cells not missing.\<close>

definition count_notna :: "'a option list \<Rightarrow> nat" where
  "count_notna s = length (dropna s)"

text \<open>\<^verbatim>\<open>Series.unique()\<close>: the distinct cells; a missing cell is one of them.\<close>

definition unique :: "'a option list \<Rightarrow> 'a option list" where
  "unique s = rev (remdups (rev s))"

section \<open>Main metrics (lines 60--74)\<close>

definition total_orders :: "table \<Rightarrow> nat" where
  "total_orders fdf = length (unique (map order_id fdf))"

text \<open>Line 65: \<^verbatim>\<open>(filtered_df['delivery_status'] == 'On Time').mean() * 100\<close>.\<close>

definition on_time_percentage :: "table \<Rightarrow> real option" where
  "on_time_percentage fdf =
     map_option (\<lambda>m. m * 100)
       (mean_bool (map (\<lambda>r. delivery_status r = Some ''On Time'') fdf))"

text \<open>A missing cell compares \<^verbatim>\<open>False\<close> under \<^verbatim>\<open>> 0\<close>.\<close>

definition gt0 :: "real option \<Rightarrow> bool" where
  "gt0 c = (case c of None \<Rightarrow> False | Some d \<Rightarrow> 0 < d)"

text \<open>Line 69: \<^verbatim>\<open>filtered_df[filtered_df['delivery_delay'] > 0]['delivery_delay'].mean()\<close>.\<close>

definition avg_delay :: "table \<Rightarrow> real option" where
  "avg_delay fdf = mean (map delivery_delay (filter (\<lambda>r. gt0 (delivery_delay r)) fdf))"

definition total_states :: "table \<Rightarrow> nat" where
  "total_states fdf = length (unique (map customer_state fdf))"

section \<open>Grouping\<close>

text \<open>
  \<^verbatim>\<open>DataFrame.groupby(key)\<close> with its defaults \<^verbatim>\<open>sort=True\<close> and \<^verbatim>\<open>dropna=True\<close>: one
  group for each distinct key that is not missing, the groups in ascending key order,
  each group holding its rows in table order. Rows whose key is missing are in no group.
\<close>

definition group_keys :: "('r \<Rightarrow> 'k::linorder option) \<Rightarrow> 'r list \<Rightarrow> 'k list" where
  "group_keys key df = sort (remdups (dropna (map key df)))"

definition groupby :: "('r \<Rightarrow> 'k::linorder option) \<Rightarrow> 'r list \<Rightarrow> ('k \<times> 'r list) list" where
  "groupby key df = map (\<lambda>k. (k, filter (\<lambda>r. key r = Some k) df)) (group_keys key df)"

text \<open>\<^verbatim>\<open>df.groupby(key)['delivery_delay'].mean()\<close>: the series of group means, indexed by key.\<close>

definition groupby_delay_mean ::
    "(row \<Rightarrow> 'k::linorder option) \<Rightarrow> table \<Rightarrow> ('k \<times> real option) list" where
  "groupby_delay_mean key df =
     map (\<lambda>(k, g). (k, mean (map delivery_delay g))) (groupby key df)"

section \<open>Delay by state (line 83)\<close>

definition state_delay :: "table \<Rightarrow> (string \<times> real option) list" where
  "state_delay fdf = groupby_delay_mean customer_state fdf"

section \<open>Top 10 delayed categories (lines 108--111)\<close>

text \<open>
  \<^verbatim>\<open>Series.sort_values(ascending=False)\<close> with its defaults \<^verbatim>\<open>kind='quicksort'\<close> and
  \<^verbatim>\<open>na_position='last'\<close>. pandas sorts through \<^verbatim>\<open>nargsort\<close>: the positions of the values
  that are not missing are reversed, sorted ascending by \<^verbatim>\<open>numpy.argsort\<close>, and reversed
  again; the positions of the missing values follow, in their original order.
  \<^verbatim>\<open>numpy.argsort\<close> is the parameter \<open>argsort\<close>: \<^verbatim>\<open>kind='quicksort'\<close> promises a
  permutation of the positions that puts the values in ascending order, and nothing
  about the order of equal values.
\<close>

definition sort_values_desc ::
    "(real list \<Rightarrow> nat list) \<Rightarrow> ('k \<times> real option) list \<Rightarrow> ('k \<times> real option) list" where
  "sort_values_desc argsort s =
     (let idx = [0..<length s];
          non_nan_idx = rev (filter (\<lambda>i. snd (s ! i) \<noteq> None) idx);
          nan_idx = filter (\<lambda>i. snd (s ! i) = None) idx;
          non_nans = map (\<lambda>i. the (snd (s ! i))) non_nan_idx;
          indexer = rev (map (\<lambda>j. non_nan_idx ! j) (argsort non_nans))
      in map (\<lambda>i. s ! i) (indexer @ nan_idx))"

text \<open>\<^verbatim>\<open>Series.head(10)\<close>.\<close>

definition head :: "nat \<Rightarrow> 'a list \<Rightarrow> 'a list" where
  "head n s = take n s"

definition top_delayed :: "(real list \<Rightarrow> nat list) \<Rightarrow> table \<Rightarrow> (string \<times> real option) list" where
  "top_delayed argsort fdf =
     head 10 (sort_values_desc argsort (groupby_delay_mean product_category_name fdf))"

text \<open>
  One admissible \<^verbatim>\<open>numpy.argsort\<close>: insertion sort on (value, position) pairs, which is
  what numpy's quicksort runs on short arrays.
\<close>

definition argsort_insertion :: "real list \<Rightarrow> nat list" where
  "argsort_insertion a = map snd (sort_key fst (zip a [0..<length a]))"


section \<open>Weight categories (lines 134--137)\<close>

text \<open>
  \<^verbatim>\<open>groupby('weight_category').agg({'delivery_delay': 'mean', 'order_id': 'count'})\<close>
  and \<^verbatim>\<open>reset_index()\<close>: one record (category, mean delay, count of order ids) per group.
\<close>

definition weight_performance :: "table \<Rightarrow> (string \<times> real option \<times> nat) list" where
  "weight_performance fdf =
     map (\<lambda>(k, g). (k, mean (map delivery_delay g), count_notna (map order_id g)))
       (groupby weight_category fdf)"

section \<open>Monthly trend (lines 166--169)\<close>

text \<open>\<^verbatim>\<open>Series.dt.to_period('M')\<close>: the month of each timestamp; \<^verbatim>\<open>NaT\<close> stays missing.\<close>

definition to_period_M :: "timestamp option \<Rightarrow> period option" where
  "to_period_M t = map_option (\<lambda>t. case ts_date t of (y, m, d) \<Rightarrow> (y, m)) t"

text \<open>
  \<^verbatim>\<open>astype(str)\<close> on monthly periods: the year in decimal, a hyphen, the month in two
  digits.
\<close>

definition digit_char :: "nat \<Rightarrow> char" where
  "digit_char d = ''0123456789'' ! d"

fun str_nat :: "nat \<Rightarrow> string" where
  "str_nat n = (if n < 10 then [digit_char n] else str_nat (n div 10) @ [digit_char (n mod 10)])"

declare str_nat.simps [simp del]

definition zfill2 :: "nat \<Rightarrow> string" where
  "zfill2 n = (if n < 10 then CHR ''0'' # str_nat n else str_nat n)"

definition period_str :: "period \<Rightarrow> string" where
  "period_str p = (case p of (y, m) \<Rightarrow> str_nat y @ ''-'' @ zfill2 m)"

definition monthly_trend :: "table \<Rightarrow> (string \<times> real option) list" where
  "monthly_trend fdf =
     map (\<lambda>(p, v). (period_str p, v))
       (groupby_delay_mean (\<lambda>r. to_period_M (order_purchase_timestamp r)) fdf)"

section \<open>Weekday profile (lines 182--185)\<close>




section \<open>Correlation matrix (lines 121--123)\<close>










section \<open>Pearson's coefficient, as the specification words it\<close>









section \<open>Sample rows\<close>

definition blank_row :: row where
  "blank_row = \<lparr>order_id = None, customer_state = None, order_purchase_timestamp = None,
     delivery_delay = None, delivery_status = None, product_category_name = None,
     product_weight_g = None, product_length_cm = None, product_height_cm = None,
     product_width_cm = None, volume = None, weight_category = None,
     order_weekday = None\<rparr>"

definition at_noon :: "date \<Rightarrow> timestamp" where
  "at_noon d = \<lparr>ts_date = d, ts_nanos = 43200000000000\<rparr>"

text \<open>Three orders: two from SP (one late, one early), one late order from RJ.\<close>

definition row_sp_late :: row where
  "row_sp_late = blank_row\<lparr>order_id := Some ''1'', customer_state := Some ''SP'',
     order_purchase_timestamp := Some (at_noon (2018, 1, 15)),
     delivery_delay := Some 5, delivery_status := Some ''Delayed''\<rparr>"

definition row_sp_early :: row where
  "row_sp_early = blank_row\<lparr>order_id := Some ''2'', customer_state := Some ''SP'',
     order_purchase_timestamp := Some (at_noon (2018, 2, 15)),
     delivery_delay := Some (- 2), delivery_status := Some ''On Time''\<rparr>"

definition row_rj_late :: row where
  "row_rj_late = blank_row\<lparr>order_id := Some ''3'', customer_state := Some ''RJ'',
     order_purchase_timestamp := Some (at_noon (2018, 1, 20)),
     delivery_delay := Some 10, delivery_status := Some ''Delayed''\<rparr>"

definition three_orders :: table where
  "three_orders = [row_sp_late, row_sp_early, row_rj_late]"

text \<open>One order of two items, both in the same weight category.\<close>

definition two_items_one_order :: table where
  "two_items_one_order =
     [blank_row\<lparr>order_id := Some ''A'', delivery_delay := Some 2,
        weight_category := Some ''Light''\<rparr>,
      blank_row\<lparr>order_id := Some ''A'', delivery_delay := Some 4,
        weight_category := Some ''Light''\<rparr>]"



text \<open>A very late row without a category, and one row of books.\<close>

definition null_category_rows :: table where
  "null_category_rows =
     [blank_row\<lparr>product_category_name := None, delivery_delay := Some 100\<rparr>,
      blank_row\<lparr>product_category_name := Some ''books'', delivery_delay := Some 1\<rparr>]"



text \<open>An order labelled "On Time" although it arrived three days late.\<close>

definition row_on_time_late :: row where
  "row_on_time_late = blank_row\<lparr>order_id := Some ''4'', customer_state := Some ''SP'',
     order_purchase_timestamp := Some (at_noon (2018, 3, 1)),
     delivery_delay := Some 3, delivery_status := Some ''On Time''\<rparr>"

lemmas sample_defs =
  three_orders_def row_sp_late_def row_sp_early_def row_rj_late_def blank_row_def at_noon_def

section \<open>Filter: properties\<close>

lemma filtered_df_pair:
  "filtered_df df sel [d0, d1] = Inr (filter (filter_mask sel d0 d1) df)"
  by (simp add: filtered_df_def)

lemma filter_mask_iff:
  "filter_mask sel d0 d1 r \<longleftrightarrow>
     customer_state r \<in> set sel \<and>
     (\<exists>t. order_purchase_timestamp r = Some t \<and> d0 \<le> ts_date t \<and> ts_date t \<le> d1)"
  by (cases "order_purchase_timestamp r")
     (auto simp: filter_mask_def isin_def date_ge_def date_le_def dt_date_def)

lemmas filter_defs = filtered_df_def filter_mask_def isin_def date_ge_def date_le_def dt_date_def

text \<open>
  C1. For every table T, selection R and date range (start, end), the filter returns a
  table, and that table is T restricted, in T's order, to exactly the rows whose
  \<open>customer_state\<close> is in R and whose purchase date (the timestamp without its time of
  day) lies in [start, end], both ends included. So every row of the result is a row of
  T with both properties, no row is added or repeated, the order of T is kept and the
  result has at most as many rows as T.
\<close>

theorem filtered_df_narrowing:
  "\<exists>out. filtered_df T R [start, end] = Inr out \<and>
     out = filter (\<lambda>r. customer_state r \<in> set R \<and>
             (\<exists>t. order_purchase_timestamp r = Some t \<and>
                start \<le> ts_date t \<and> ts_date t \<le> end)) T \<and>
     subseq out T \<and>
     length out \<le> length T \<and>
     (\<forall>r \<in> set out. r \<in> set T \<and> customer_state r \<in> set R \<and>
        (\<exists>t. order_purchase_timestamp r = Some t \<and>
           start \<le> ts_date t \<and> ts_date t \<le> end))"
proof -
  let ?P = "filter_mask R start end"
  have "filter ?P T = filter (\<lambda>r. customer_state r \<in> set R \<and>
          (\<exists>t. order_purchase_timestamp r = Some t \<and>
             start \<le> ts_date t \<and> ts_date t \<le> end)) T"
    by (rule filter_cong) (simp_all add: filter_mask_iff)
  moreover have "\<forall>r \<in> set (filter ?P T). r \<in> set T \<and> customer_state r \<in> set R \<and>
        (\<exists>t. order_purchase_timestamp r = Some t \<and>
           start \<le> ts_date t \<and> ts_date t \<le> end)"
    by (simp add: filter_mask_iff)
  ultimately show ?thesis
    unfolding filtered_df_pair
    by (intro exI [of _ "filter ?P T"] conjI refl subseq_filter_left length_filter_le)
qed

theorem filtered_df_narrowing_witness:
  "filtered_df three_orders [Some ''SP''] [(2018, 1, 1), (2018, 1, 31)] = Inr [row_sp_late] \<and>
   subseq [row_sp_late] three_orders"
  using filtered_df_narrowing [of three_orders "[Some ''SP'']" "(2018, 1, 1)" "(2018, 1, 31)"]
  by (simp add: filter_defs sample_defs)

text \<open>
  C2 (as amended). The filter has no check of the range. When the start date is
  strictly after the end date no row can satisfy both bounds, and the filter raises
  nothing and returns the empty table.
\<close>

theorem filtered_df_reversed_range:
  assumes "end < start"
  shows "filtered_df T R [start, end] = Inr []"
proof -
  have "\<not> filter_mask R start end r" for r
    using assms by (auto simp: filter_mask_iff)
  then have "filter (filter_mask R start end) T = []"
    by (simp add: filter_empty_conv)
  then show ?thesis
    by (simp add: filtered_df_pair)
qed

theorem filtered_df_reversed_range_witness:
  "((2018, 1, 1) :: date) < (2018, 3, 1) \<and>
   filtered_df three_orders [Some ''SP'', Some ''RJ''] [(2018, 3, 1), (2018, 1, 1)] = Inr []"
proof -
  have lt: "((2018, 1, 1) :: date) < (2018, 3, 1)"
    by simp
  show ?thesis
    using lt filtered_df_reversed_range [OF lt, of three_orders "[Some ''SP'', Some ''RJ'']"]
    by simp
qed

text \<open>
  The claim as stated fails: with start 2018-02-01 after end 2018-01-01 the filter
  returns a table (the empty one) where the claim expects an \<^verbatim>\<open>InvalidRange\<close> failure.
\<close>

theorem filtered_df_invalid_range_counterexample:
  "((2018, 1, 1) :: date) < (2018, 2, 1) \<and>
   filtered_df [row_sp_late] [Some ''SP''] [(2018, 2, 1), (2018, 1, 1)] = Inr []"
  by (simp add: filter_defs sample_defs)

section \<open>Main metrics: properties\<close>

lemma dropna_filter_gt0:
  "dropna (map f (filter (\<lambda>r. gt0 (f r)) T)) = filter (\<lambda>d. 0 < d) (dropna (map f T))"
proof (induction T)
  case Nil
  show ?case by simp
next
  case (Cons r T)
  then show ?case by (cases "f r") (simp_all add: gt0_def)
qed

lemma set_dropna: "set (dropna s) = {v. Some v \<in> set s}"
  by (induction s rule: dropna.induct) auto

lemma set_group_keys: "set (group_keys key df) = {k. \<exists>r \<in> set df. key r = Some k}"
  by (force simp: group_keys_def set_dropna)

lemma sorted_group_keys: "sorted (group_keys key df)"
  by (simp add: group_keys_def)

lemma distinct_group_keys: "distinct (group_keys key df)"
  by (simp add: group_keys_def)

lemma groupby_delay_mean_eq:
  "groupby_delay_mean key df =
     map (\<lambda>k. (k, mean (map delivery_delay (filter (\<lambda>r. key r = Some k) df))))
       (group_keys key df)"
  by (simp add: groupby_delay_mean_def groupby_def)

lemmas view_defs = groupby_delay_mean_def groupby_def group_keys_def mean_def

text \<open>
  C3 (as amended). For a table with at least one row, \<open>on_time_percentage\<close> is the
  number of rows whose \<open>delivery_status\<close> is "On Time" over the number of rows, times
  100. For the table without rows it is the not-a-number value: the mean of the empty
  boolean column raises nothing and is not replaced by 0.
\<close>

theorem on_time_percentage_value:
  "on_time_percentage T =
     (if T = [] then None
      else Some (real (length (filter (\<lambda>r. delivery_status r = Some ''On Time'') T)) /
                 real (length T) * 100))"
  by (simp add: on_time_percentage_def mean_bool_def length_filter_map comp_def
      del: One_nat_def)

text \<open>
  The claim as stated fails on the empty table: the value is not-a-number, not 0.
\<close>

theorem on_time_percentage_empty_counterexample:
  "on_time_percentage [] = None \<and> on_time_percentage [] \<noteq> Some 0"
  by (simp add: on_time_percentage_def mean_bool_def)

text \<open>
  C4 (as amended). \<open>avg_delay\<close> is the mean of the delays that are present and
  strictly positive, and the not-a-number value (not 0) when there is no such delay.
  The \<open>delivery_status\<close> of a row is not read: relabelling the rows does not change
  the value. A row labelled "On Time" is therefore left out only in so far as its delay
  is not positive: where no such row has a positive delay, leaving out the "On Time"
  rows does not change the value. The delay-by-state view has one entry per state
  present, and its mean is taken over every delay of the state's rows that is present,
  positive or not.
\<close>

theorem avg_delay_scope:
  "avg_delay T =
     (let late = filter (\<lambda>d. 0 < d) (dropna (map delivery_delay T)) in
      if late = [] then None else Some (sum_list late / real (length late))) \<and>
   (\<forall>st. avg_delay (map (\<lambda>r. r\<lparr>delivery_status := st r\<rparr>) T) = avg_delay T) \<and>
   ((\<forall>r \<in> set T. delivery_status r = Some ''On Time'' \<longrightarrow> \<not> gt0 (delivery_delay r)) \<longrightarrow>
      avg_delay T = avg_delay (filter (\<lambda>r. delivery_status r \<noteq> Some ''On Time'') T)) \<and>
   ((\<forall>r \<in> set T. \<not> gt0 (delivery_delay r)) \<longrightarrow> avg_delay T = None) \<and>
   map fst (state_delay T) = group_keys customer_state T \<and>
   (\<forall>k \<in> set (group_keys customer_state T).
      map_of (state_delay T) k =
        Some (let ds = dropna (map delivery_delay (filter (\<lambda>r. customer_state r = Some k) T)) in
              if ds = [] then None else Some (sum_list ds / real (length ds))))"
proof (intro conjI impI)
  show "avg_delay T =
     (let late = filter (\<lambda>d. 0 < d) (dropna (map delivery_delay T)) in
      if late = [] then None else Some (sum_list late / real (length late)))"
    by (simp add: avg_delay_def mean_def dropna_filter_gt0)
next
  show "\<forall>st. avg_delay (map (\<lambda>r. r\<lparr>delivery_status := st r\<rparr>) T) = avg_delay T"
    by (simp add: avg_delay_def filter_map comp_def)
next
  assume h: "\<forall>r \<in> set T. delivery_status r = Some ''On Time'' \<longrightarrow> \<not> gt0 (delivery_delay r)"
  have "filter (\<lambda>r. gt0 (delivery_delay r))
          (filter (\<lambda>r. delivery_status r \<noteq> Some ''On Time'') T)
        = filter (\<lambda>r. gt0 (delivery_delay r)) T"
    unfolding filter_filter using h by (intro filter_cong) auto
  then show "avg_delay T = avg_delay (filter (\<lambda>r. delivery_status r \<noteq> Some ''On Time'') T)"
    by (simp add: avg_delay_def)
next
  assume "\<forall>r \<in> set T. \<not> gt0 (delivery_delay r)"
  then have "filter (\<lambda>r. gt0 (delivery_delay r)) T = []"
    by (simp add: filter_empty_conv)
  then show "avg_delay T = None"
    by (simp add: avg_delay_def mean_def)
next
  show "map fst (state_delay T) = group_keys customer_state T"
    by (simp add: state_delay_def groupby_delay_mean_eq comp_def)
next
  show "\<forall>k \<in> set (group_keys customer_state T).
      map_of (state_delay T) k =
        Some (let ds = dropna (map delivery_delay (filter (\<lambda>r. customer_state r = Some k) T)) in
              if ds = [] then None else Some (sum_list ds / real (length ds)))"
    by (simp add: state_delay_def groupby_delay_mean_eq map_of_map_restrict mean_def)
qed

text \<open>
  On the three sample orders the two averages differ: 7.5 over the late orders, but
  1.5 for SP, whose early order counts in the state's mean.
\<close>

theorem avg_delay_scope_witness:
  "avg_delay three_orders = Some (15 / 2) \<and>
   avg_delay (filter (\<lambda>r. delivery_status r \<noteq> Some ''On Time'') three_orders) = Some (15 / 2) \<and>
   avg_delay [row_sp_early] = None \<and>
   state_delay three_orders = [(''RJ'', Some 10), (''SP'', Some (3 / 2))]"
  using avg_delay_scope [of three_orders] avg_delay_scope [of "[row_sp_early]"]
  by (simp add: avg_delay_def gt0_def state_delay_def view_defs sample_defs)

text \<open>
  The claim as stated fails: an "On Time" row with a positive delay is counted. The
  average of the table holding only such a row is its delay, where the table without
  "On Time" rows has no average.
\<close>

theorem avg_delay_on_time_counterexample:
  "delivery_status row_on_time_late = Some ''On Time'' \<and>
   avg_delay [row_on_time_late] = Some 3 \<and>
   avg_delay (filter (\<lambda>r. delivery_status r \<noteq> Some ''On Time'') [row_on_time_late]) = None"
  by (simp add: avg_delay_def gt0_def mean_def row_on_time_late_def blank_row_def)

section \<open>Weight categories: properties\<close>

text \<open>
  C6. The count of a weight category is the \<^verbatim>\<open>'count'\<close> aggregation of \<open>order_id\<close>: the
  number of rows of the group with an order id, not the number of distinct order ids.
  For one order of two items in the same category the view reports 2, where
  \<open>total_orders\<close> (line 61, distinct ids) reports 1.
\<close>

theorem weight_performance_counts_rows:
  "weight_performance two_items_one_order = [(''Light'', Some 3, 2)] \<and>
   total_orders two_items_one_order = 1"
  by (simp add: weight_performance_def count_notna_def total_orders_def unique_def
      two_items_one_order_def view_defs blank_row_def)

section \<open>Weekday profile: properties\<close>




section \<open>Monthly trend: properties\<close>

lemma str_nat_digit: "n < 10 \<Longrightarrow> str_nat n = [digit_char n]"
  by (simp add: str_nat.simps)

lemma str_nat_step: "10 \<le> n \<Longrightarrow> str_nat n = str_nat (n div 10) @ [digit_char (n mod 10)]"
  by (subst str_nat.simps) simp

lemma str_nat_year:
  assumes "1000 \<le> y" and "y \<le> 9999"
  shows "str_nat y = [digit_char (y div 1000), digit_char (y div 100 mod 10),
                      digit_char (y div 10 mod 10), digit_char (y mod 10)]"
proof -
  have s3: "str_nat (y div 1000) = [digit_char (y div 1000)]"
    using assms by (intro str_nat_digit) auto
  have "str_nat (y div 100) = str_nat (y div 100 div 10) @ [digit_char (y div 100 mod 10)]"
    using assms by (intro str_nat_step) auto
  moreover have "y div 100 div 10 = y div 1000"
    using div_mult2_eq [of y 100 10] by simp
  ultimately have s2:
    "str_nat (y div 100) = str_nat (y div 1000) @ [digit_char (y div 100 mod 10)]"
    by simp
  have "str_nat (y div 10) = str_nat (y div 10 div 10) @ [digit_char (y div 10 mod 10)]"
    using assms by (intro str_nat_step) auto
  moreover have "y div 10 div 10 = y div 100"
    using div_mult2_eq [of y 10 10] by simp
  ultimately have s1:
    "str_nat (y div 10) = str_nat (y div 100) @ [digit_char (y div 10 mod 10)]"
    by simp
  have s0: "str_nat y = str_nat (y div 10) @ [digit_char (y mod 10)]"
    using assms by (intro str_nat_step) auto
  show ?thesis
    by (simp add: s0 s1 s2 s3)
qed

lemma zfill2_eq: "m < 100 \<Longrightarrow> zfill2 m = [digit_char (m div 10), digit_char (m mod 10)]"
  by (cases "m < 10") (simp_all add: zfill2_def str_nat_digit str_nat_step digit_char_def)

text \<open>
  C9. The monthly trend has one bucket for each (year, month) in which a row was
  purchased, in strictly increasing chronological order. The value of a bucket is the
  mean delay of the rows purchased in that month, and its label is the four digits of
  the year, a hyphen and the two digits of the month (for the four-digit years that a
  pandas timestamp can hold).
\<close>

theorem monthly_trend_chronological:
  "(\<exists>ps. monthly_trend T =
           map (\<lambda>p. (period_str p,
                  mean (map delivery_delay
                    (filter (\<lambda>r. to_period_M (order_purchase_timestamp r) = Some p) T)))) ps \<and>
         sorted_wrt (\<lambda>(y1, m1) (y2, m2). y1 < y2 \<or> (y1 = y2 \<and> m1 < m2)) ps \<and>
         set ps = {p. \<exists>r \<in> set T. to_period_M (order_purchase_timestamp r) = Some p}) \<and>
   (\<forall>t y m d. ts_date t = (y, m, d) \<longrightarrow> to_period_M (Some t) = Some (y, m)) \<and>
   to_period_M None = None \<and>
   (\<forall>y m. 1000 \<le> y \<and> y \<le> 9999 \<and> m < 100 \<longrightarrow>
      period_str (y, m) =
        [digit_char (y div 1000), digit_char (y div 100 mod 10), digit_char (y div 10 mod 10),
         digit_char (y mod 10), CHR ''-'', digit_char (m div 10), digit_char (m mod 10)])"
proof (intro conjI)
  let ?key = "\<lambda>r. to_period_M (order_purchase_timestamp r)"
  let ?ps = "group_keys ?key T"
  have "sorted_wrt (<) ?ps"
    using sorted_group_keys [of ?key T] distinct_group_keys [of ?key T]
    by (simp add: strict_sorted_iff)
  then have chrono: "sorted_wrt (\<lambda>(y1, m1) (y2, m2). y1 < y2 \<or> (y1 = y2 \<and> m1 < m2)) ?ps"
    by (rule sorted_wrt_mono_rel [rotated]) auto
  have "monthly_trend T =
          map (\<lambda>p. (period_str p, mean (map delivery_delay (filter (\<lambda>r. ?key r = Some p) T)))) ?ps"
    by (simp add: monthly_trend_def groupby_delay_mean_eq)
  with chrono set_group_keys [of ?key T]
  show "\<exists>ps. monthly_trend T =
           map (\<lambda>p. (period_str p,
                  mean (map delivery_delay (filter (\<lambda>r. ?key r = Some p) T)))) ps \<and>
         sorted_wrt (\<lambda>(y1, m1) (y2, m2). y1 < y2 \<or> (y1 = y2 \<and> m1 < m2)) ps \<and>
         set ps = {p. \<exists>r \<in> set T. ?key r = Some p}"
    by blast
next
  show "\<forall>t y m d. ts_date t = (y, m, d) \<longrightarrow> to_period_M (Some t) = Some (y, m)"
    by (simp add: to_period_M_def)
next
  show "to_period_M None = None"
    by (simp add: to_period_M_def)
next
  show "\<forall>y m. 1000 \<le> y \<and> y \<le> 9999 \<and> m < 100 \<longrightarrow>
      period_str (y, m) =
        [digit_char (y div 1000), digit_char (y div 100 mod 10), digit_char (y div 10 mod 10),
         digit_char (y mod 10), CHR ''-'', digit_char (m div 10), digit_char (m mod 10)]"
    by (simp add: period_str_def str_nat_year zfill2_eq)
qed

theorem monthly_trend_chronological_witness:
  "monthly_trend three_orders = [(''2018-01'', Some (15 / 2)), (''2018-02'', Some (- 2))] \<and>
   period_str (2018, 1) = ''2018-01'' \<and>
   to_period_M (Some (at_noon (2018, 1, 15))) = Some (2018, 1)"
  using monthly_trend_chronological [of three_orders]
  by (simp add: monthly_trend_def view_defs sample_defs to_period_M_def period_str_def
      zfill2_def str_nat.simps digit_char_def)

section \<open>Top 10 delayed categories: properties\<close>

lemma map_nth_filter:
  "map (\<lambda>i. s ! i) (filter (\<lambda>i. P (s ! i)) [0..<length s]) = filter P s"
proof -
  have "filter P (map (\<lambda>i. s ! i) [0..<length s]) = filter P s"
    by (simp add: map_nth)
  then show ?thesis
    by (simp add: filter_map comp_def)
qed

lemma argsort_insertion_perm: "mset (argsort_insertion a) = mset [0..<length a]"
proof -
  have "mset (map snd (sort_key fst (zip a [0..<length a]))) = mset (map snd (zip a [0..<length a]))"
    by (simp only: mset_map mset_sort)
  then show ?thesis
    by (simp add: argsort_insertion_def)
qed

lemma argsort_insertion_sorted: "sorted (map (\<lambda>i. a ! i) (argsort_insertion a))"
proof -
  let ?z = "zip a [0..<length a]"
  have "\<forall>p \<in> set (sort_key fst ?z). a ! snd p = fst p"
    by (auto simp: set_zip)
  then have "map (\<lambda>i. a ! i) (map snd (sort_key fst ?z)) = map fst (sort_key fst ?z)"
    by (simp add: comp_def)
  then show ?thesis
    by (simp add: argsort_insertion_def del: map_map)
qed

lemma sort_values_desc_split:
  assumes perm: "\<And>a. mset (argsort a) = mset [0..<length a]"
    and srt: "\<And>a. sorted (map (\<lambda>i. a ! i) (argsort a))"
  shows "\<exists>ranked. sort_values_desc argsort s = ranked @ filter (\<lambda>e. snd e = None) s \<and>
           mset ranked = mset (filter (\<lambda>e. snd e \<noteq> None) s) \<and>
           sorted_wrt (\<lambda>x y. the (snd x) \<ge> the (snd y)) ranked"
proof -
  let ?idx = "[0..<length s]"
  let ?nn = "rev (filter (\<lambda>i. snd (s ! i) \<noteq> None) ?idx)"
  let ?vals = "map (\<lambda>i. the (snd (s ! i))) ?nn"
  let ?p = "argsort ?vals"
  let ?ranked = "map (\<lambda>i. s ! i) (rev (map (\<lambda>j. ?nn ! j) ?p))"
  have len: "length ?vals = length ?nn" by simp
  have pm: "mset ?p = mset [0..<length ?nn]"
    using perm [of ?vals] by (simp only: len)
  have inr: "\<forall>j \<in> set ?p. j < length ?nn"
    using mset_eq_setD [OF pm] by auto
  have split: "sort_values_desc argsort s = ?ranked @ filter (\<lambda>e. snd e = None) s"
    by (simp add: sort_values_desc_def Let_def map_nth_filter [where P = "\<lambda>e. snd e = None"])
  have "mset (map (\<lambda>j. ?nn ! j) ?p) = image_mset (\<lambda>j. ?nn ! j) (mset [0..<length ?nn])"
    by (simp only: mset_map pm)
  also have "\<dots> = mset (map (\<lambda>j. ?nn ! j) [0..<length ?nn])"
    by simp
  also have "\<dots> = mset ?nn"
    by (simp only: map_nth)
  finally have "mset (map (\<lambda>j. ?nn ! j) ?p) = mset (filter (\<lambda>i. snd (s ! i) \<noteq> None) ?idx)"
    by simp
  then have "mset ?ranked = image_mset (\<lambda>i. s ! i) (mset (filter (\<lambda>i. snd (s ! i) \<noteq> None) ?idx))"
    by (simp only: mset_map mset_rev)
  also have "\<dots> = mset (map (\<lambda>i. s ! i) (filter (\<lambda>i. snd (s ! i) \<noteq> None) ?idx))"
    by simp
  also have "\<dots> = mset (filter (\<lambda>e. snd e \<noteq> None) s)"
    by (simp only: map_nth_filter [where P = "\<lambda>e. snd e \<noteq> None"])
  finally have ms: "mset ?ranked = mset (filter (\<lambda>e. snd e \<noteq> None) s)" .
  have eqn: "map (\<lambda>e. the (snd e)) (map (\<lambda>i. s ! i) (map (\<lambda>j. ?nn ! j) ?p)) =
      map (\<lambda>j. ?vals ! j) ?p"
    using inr by (simp add: comp_def)
  have "sorted (map (\<lambda>e. the (snd e)) (map (\<lambda>i. s ! i) (map (\<lambda>j. ?nn ! j) ?p)))"
    unfolding eqn by (rule srt)
  then have "sorted_wrt (\<lambda>x y. the (snd x) \<le> the (snd y)) (map (\<lambda>i. s ! i) (map (\<lambda>j. ?nn ! j) ?p))"
    by (simp only: sorted_wrt_map sorted_map)
  then have "sorted_wrt (\<lambda>x y. the (snd y) \<le> the (snd x)) (rev (map (\<lambda>i. s ! i) (map (\<lambda>j. ?nn ! j) ?p)))"
    by (simp only: sorted_wrt_rev)
  then have so: "sorted_wrt (\<lambda>x y. the (snd x) \<ge> the (snd y)) ?ranked"
    by (simp only: rev_map)
  from split ms so show ?thesis by blast
qed


lemma set_sort_values_desc:
  assumes perm: "\<And>a. mset (argsort a) = mset [0..<length a]"
    and srt: "\<And>a. sorted (map (\<lambda>i. a ! i) (argsort a))"
  shows "mset (sort_values_desc argsort s) = mset s"
proof -
  obtain ranked where r: "sort_values_desc argsort s = ranked @ filter (\<lambda>e. snd e = None) s"
    and m: "mset ranked = mset (filter (\<lambda>e. snd e \<noteq> None) s)"
    using sort_values_desc_split [OF perm srt, of s] by blast
  have "mset (sort_values_desc argsort s) =
          mset (filter (\<lambda>e. snd e \<noteq> None) s) + mset (filter (\<lambda>e. snd e = None) s)"
    by (simp only: r mset_append m)
  also have "\<dots> = mset s"
    by (induction s) auto
  finally show ?thesis .
qed

lemma dropna_map_filter_present:
  "dropna (map key (filter (\<lambda>r. key r \<noteq> None) T)) = dropna (map key T)"
proof (induction T)
  case Nil
  show ?case by simp
next
  case (Cons r T)
  then show ?case by (cases "key r") simp_all
qed

lemma groupby_delay_mean_present:
  "groupby_delay_mean key (filter (\<lambda>r. key r \<noteq> None) T) = groupby_delay_mean key T"
proof -
  have k: "group_keys key (filter (\<lambda>r. key r \<noteq> None) T) = group_keys key T"
    by (simp only: group_keys_def dropna_map_filter_present)
  have f: "filter (\<lambda>r. key r = Some c) (filter (\<lambda>r. key r \<noteq> None) T) =
      filter (\<lambda>r. key r = Some c) T" for c
    unfolding filter_filter by (intro filter_cong) auto
  show ?thesis
    by (simp only: groupby_delay_mean_eq k f)
qed












text \<open>
  C10. Rows without a \<open>product_category_name\<close> are in no group: the view is the same
  as on the table without these rows, whatever their delays, and every category named
  in the view is the category of some row of the table.
\<close>

theorem top_delayed_null_category:
  assumes perm: "\<And>a. mset (argsort a) = mset [0..<length a]"
    and srt: "\<And>a. sorted (map (\<lambda>i. a ! i) (argsort a))"
  shows "top_delayed argsort T =
           top_delayed argsort (filter (\<lambda>r. product_category_name r \<noteq> None) T) \<and>
         (\<forall>e \<in> set (top_delayed argsort T). \<exists>r \<in> set T. product_category_name r = Some (fst e))"
proof
  show "top_delayed argsort T =
          top_delayed argsort (filter (\<lambda>r. product_category_name r \<noteq> None) T)"
    by (simp only: top_delayed_def groupby_delay_mean_present)
next
  let ?G = "groupby_delay_mean product_category_name T"
  have "set (top_delayed argsort T) \<subseteq> set (sort_values_desc argsort ?G)"
    by (simp add: top_delayed_def head_def set_take_subset)
  also have "\<dots> = set ?G"
    using set_sort_values_desc [OF perm srt, of ?G] by (rule mset_eq_setD)
  finally have "fst ` set (top_delayed argsort T) \<subseteq> fst ` set ?G"
    by blast
  also have "\<dots> = set (group_keys product_category_name T)"
    by (simp add: groupby_delay_mean_eq image_image)
  finally show "\<forall>e \<in> set (top_delayed argsort T).
      \<exists>r \<in> set T. product_category_name r = Some (fst e)"
    by (auto simp: set_group_keys)
qed

theorem top_delayed_null_category_witness:
  "top_delayed argsort_insertion null_category_rows = [(''books'', Some 1)] \<and>
   top_delayed argsort_insertion
     (filter (\<lambda>r. product_category_name r \<noteq> None) null_category_rows) = [(''books'', Some 1)]"
  using top_delayed_null_category [of argsort_insertion null_category_rows,
      OF argsort_insertion_perm argsort_insertion_sorted]
  by (simp add: top_delayed_def head_def sort_values_desc_def argsort_insertion_def
      view_defs null_category_rows_def blank_row_def)

section \<open>Correlation matrix: properties\<close>

















































end
